theory Spec2Isabelle
  imports Main "HOL-Library.AList"
begin

section \<open>JavaScript values\<close>

text \<open>
  The values that flow through \<^verbatim>\<open>ToolHttpRequest/utils.ts\<close>: node parameters, credential
  fields, request fields and responses. Objects are association lists read through
  \<open>map_of\<close>; no statement below depends on the enumeration order of an object's keys.
  Strings are lists of characters, one character standing for one UTF-16 code unit
  (\<^verbatim>\<open>length\<close> and \<^verbatim>\<open>substring\<close> both count code units; the alphabet of the model is the
  256 code units below U+0100). Numbers are modelled by integer
  values: the code compares them and passes them on, and never computes with them.
  An object is given by its own properties; what it inherits is read separately
  (\<open>getProp\<close> below), and the values a plain object inherits are the built-in functions
  of \<^verbatim>\<open>Object.prototype\<close> (\<open>JFunction\<close>, by name) and \<^verbatim>\<open>Object.prototype\<close> itself
  (\<open>JObjectPrototype\<close>). Symbols and big integers are outside the value model.
\<close>

datatype jsval =
    JUndefined
  | JNull
  | JBool bool
  | JNum int
  | JStr string
  | JArr "jsval list"
  | JObj "(string \<times> jsval) list"
  | JFunction string
  | JObjectPrototype

type_synonym obj = "(string \<times> jsval) list"

text \<open>The operator \<^verbatim>\<open>typeof\<close>.\<close>

fun typeof :: "jsval \<Rightarrow> string" where
  "typeof JUndefined = ''undefined''"
| "typeof JNull = ''object''"
| "typeof (JBool b) = ''boolean''"
| "typeof (JNum n) = ''number''"
| "typeof (JStr s) = ''string''"
| "typeof (JArr xs) = ''object''"
| "typeof (JObj kvs) = ''object''"
| "typeof (JFunction f) = ''function''"
| "typeof JObjectPrototype = ''object''"

text \<open>Truthiness, as tested by \<^verbatim>\<open>if (v)\<close>, \<^verbatim>\<open>!v\<close>, \<^verbatim>\<open>a || b\<close> and \<^verbatim>\<open>a && b\<close>.\<close>

fun truthy :: "jsval \<Rightarrow> bool" where
  "truthy JUndefined = False"
| "truthy JNull = False"
| "truthy (JBool b) = b"
| "truthy (JNum n) = (n \<noteq> 0)"
| "truthy (JStr s) = (s \<noteq> [])"
| "truthy (JArr xs) = True"
| "truthy (JObj kvs) = True"
| "truthy (JFunction f) = True"
| "truthy JObjectPrototype = True"

section \<open>Errors\<close>

text \<open>
  Every \<^verbatim>\<open>throw\<close> of the source and every exception of the runtime is a value.
  \<open>NodeOperationError node message itemIndex\<close> is the source's
  \<^verbatim>\<open>new NodeOperationError(ctx.getNode(), message, { itemIndex })\<close>;
  \<open>ParseError message\<close> and \<open>ParseFailure\<close> are the errors of \<^verbatim>\<open>jsonParse\<close> in the spec's
  words, with an \<^verbatim>\<open>errorMessage\<close> and without one;
  \<open>TypeError message\<close> is the runtime's error for a property access on \<^verbatim>\<open>null\<close> or
  \<^verbatim>\<open>undefined\<close> and for iterating a value that is not iterable (the message is the
  engine's, given here without the property's name);
  \<open>CollaboratorError\<close> is whatever a collaborator of the execution context raises.
\<close>

datatype error =
    NodeOperationError string string nat
  | ParseError string
  | ParseFailure
  | TypeError string
  | CollaboratorError string

fun error_message :: "error \<Rightarrow> string option" where
  "error_message (NodeOperationError node msg i) = Some msg"
| "error_message (ParseError msg) = Some msg"
| "error_message ParseFailure = None"
| "error_message (TypeError msg) = Some msg"
| "error_message (CollaboratorError msg) = Some msg"

fun error_itemIndex :: "error \<Rightarrow> nat option" where
  "error_itemIndex (NodeOperationError node msg i) = Some i"
| "error_itemIndex e = None"

definition andThen :: "error + 'a \<Rightarrow> ('a \<Rightarrow> error + 'b) \<Rightarrow> error + 'b" where
  "andThen m f = (case m of Inl e \<Rightarrow> Inl e | Inr x \<Rightarrow> f x)"

fun mapE :: "('a \<Rightarrow> error + 'b) \<Rightarrow> 'a list \<Rightarrow> error + 'b list" where
  "mapE f [] = Inr []"
| "mapE f (x # xs) =
     (case f x of
        Inl e \<Rightarrow> Inl e
      | Inr y \<Rightarrow> (case mapE f xs of Inl e \<Rightarrow> Inl e | Inr ys \<Rightarrow> Inr (y # ys)))"

section \<open>The runtime and the libraries\<close>

text \<open>
  What the module imports and does not define is a parameter: the built-ins
  \<^verbatim>\<open>JSON.parse\<close> (\<open>None\<close> when it throws) and \<^verbatim>\<open>JSON.stringify(v, null, 2)\<close>, the
  coercions \<^verbatim>\<open>ToString\<close> and \<^verbatim>\<open>ToNumber\<close> on values that are not already a string or a
  number (\<open>None\<close> is \<^verbatim>\<open>NaN\<close>), what a property read answers on an array, a string, a
  number or a boolean from their built-in prototypes, and on a function (\<open>inherited v k\<close>,
  for a name \<open>k\<close> that is not an index or \<^verbatim>\<open>length\<close>; \<open>None\<close> when \<open>v\<close> has no such
  property), the error
  \<^verbatim>\<open>jsonParse\<close> raises for a string that \<^verbatim>\<open>JSON.parse\<close> rejects (a function of its two
  arguments, the string and the \<^verbatim>\<open>errorMessage\<close> option), lodash's \<^verbatim>\<open>get\<close>, \<^verbatim>\<open>set\<close> and
  \<^verbatim>\<open>unset\<close> (each returning the object it leaves behind), cheerio (the inner HTML of
  every element a selector matches in a document, in document order, or the error it
  throws) and html-to-text's \<^verbatim>\<open>convert\<close> (with the selectors to skip, when options are
  passed; it throws on a selector it cannot parse).
\<close>

record lib =
  JSON_parse :: "string \<Rightarrow> jsval option"
  JSON_stringify :: "jsval \<Rightarrow> string"
  ToString :: "jsval \<Rightarrow> string"
  ToNumber :: "jsval \<Rightarrow> int option"
  inherited :: "jsval \<Rightarrow> string \<Rightarrow> jsval option"
  jsonParse_error :: "string \<Rightarrow> string option \<Rightarrow> error"
  lodash_get :: "jsval \<Rightarrow> jsval \<Rightarrow> jsval"
  lodash_set :: "jsval \<Rightarrow> jsval \<Rightarrow> jsval \<Rightarrow> jsval"
  lodash_unset :: "jsval \<Rightarrow> jsval \<Rightarrow> jsval"
  cheerio_select :: "string \<Rightarrow> jsval \<Rightarrow> error + string option list"
  convert :: "string \<Rightarrow> string list option \<Rightarrow> error + string"

text \<open>A value used where a string is expected (a property key, the argument of
  \<^verbatim>\<open>JSON.parse\<close>, \<^verbatim>\<open>String(v)\<close>): a string is taken as it is.\<close>

definition toStr :: "lib \<Rightarrow> jsval \<Rightarrow> string" where
  "toStr L v = (case v of JStr s \<Rightarrow> s | _ \<Rightarrow> ToString L v)"

text \<open>A value used where a number is expected (the operands of \<^verbatim>\<open>>\<close>).\<close>

definition toNum :: "lib \<Rightarrow> jsval \<Rightarrow> int option" where
  "toNum L v = (case v of JNum n \<Rightarrow> Some n | _ \<Rightarrow> ToNumber L v)"

text \<open>Decimal numerals, the names of array indices.\<close>

fun dec :: "nat \<Rightarrow> string" where
  "dec n =
     (if n < 10 then [char_of (48 + n)]
      else dec (n div 10) @ [char_of (48 + n mod 10)])"

definition indexOfKey :: "string \<Rightarrow> nat \<Rightarrow> nat option" where
  "indexOfKey k n = find (\<lambda>i. dec i = k) [0..<n]"

text \<open>The properties of \<^verbatim>\<open>Object.prototype\<close>, which every plain object inherits: eleven
  functions and the accessor \<^verbatim>\<open>__proto__\<close>, whose getter answers the prototype of the
  object read, for a plain object \<^verbatim>\<open>Object.prototype\<close>.\<close>

definition objectPrototype :: "(string \<times> jsval) list" where
  "objectPrototype =
     [(''constructor'', JFunction ''Object''),
      (''__defineGetter__'', JFunction ''__defineGetter__''),
      (''__defineSetter__'', JFunction ''__defineSetter__''),
      (''hasOwnProperty'', JFunction ''hasOwnProperty''),
      (''__lookupGetter__'', JFunction ''__lookupGetter__''),
      (''__lookupSetter__'', JFunction ''__lookupSetter__''),
      (''isPrototypeOf'', JFunction ''isPrototypeOf''),
      (''propertyIsEnumerable'', JFunction ''propertyIsEnumerable''),
      (''toString'', JFunction ''toString''),
      (''valueOf'', JFunction ''valueOf''),
      (''__proto__'', JObjectPrototype),
      (''toLocaleString'', JFunction ''toLocaleString'')]"

definition orUndefined :: "jsval option \<Rightarrow> jsval" where
  "orUndefined r = (case r of None \<Rightarrow> JUndefined | Some v \<Rightarrow> v)"

text \<open>The property read \<^verbatim>\<open>v[k]\<close>: it throws on \<^verbatim>\<open>null\<close> and \<^verbatim>\<open>undefined\<close>; otherwise it
  gives the own property \<open>k\<close>, or else the property \<open>k\<close> the value inherits, or else
  \<^verbatim>\<open>undefined\<close>. The prototype of \<^verbatim>\<open>Object.prototype\<close> is \<^verbatim>\<open>null\<close>.\<close>

fun getProp :: "lib \<Rightarrow> jsval \<Rightarrow> string \<Rightarrow> error + jsval" where
  "getProp L JUndefined k = Inl (TypeError ''Cannot read properties of undefined'')"
| "getProp L JNull k = Inl (TypeError ''Cannot read properties of null'')"
| "getProp L (JObj kvs) k =
     Inr (case map_of kvs k of
            Some v \<Rightarrow> v
          | None \<Rightarrow> orUndefined (map_of objectPrototype k))"
| "getProp L (JArr xs) k =
     Inr (if k = ''length'' then JNum (int (length xs))
          else case indexOfKey k (length xs) of
                 Some i \<Rightarrow> xs ! i
               | None \<Rightarrow> orUndefined (inherited L (JArr xs) k))"
| "getProp L (JStr s) k =
     Inr (if k = ''length'' then JNum (int (length s))
          else case indexOfKey k (length s) of
                 Some i \<Rightarrow> JStr [s ! i]
               | None \<Rightarrow> orUndefined (inherited L (JStr s) k))"
| "getProp L (JBool b) k = Inr (orUndefined (inherited L (JBool b) k))"
| "getProp L (JNum n) k = Inr (orUndefined (inherited L (JNum n) k))"
| "getProp L (JFunction f) k = Inr (orUndefined (inherited L (JFunction f) k))"
| "getProp L JObjectPrototype k =
     Inr (if k = ''__proto__'' then JNull else orUndefined (map_of objectPrototype k))"

text \<open>The assignment \<^verbatim>\<open>obj[k] = v\<close> on a plain object, as its own properties see it. For
  \<^verbatim>\<open>k = '__proto__'\<close> that is not an own property the inherited setter runs: it sets no
  own property (for a value that is an object or \<^verbatim>\<open>null\<close> it replaces the prototype of
  the object, which is not among its own properties). Every other name, inherited or
  not, becomes or stays an own property.\<close>

definition setProp :: "obj \<Rightarrow> string \<Rightarrow> jsval \<Rightarrow> obj" where
  "setProp ob k v =
     (if k = ''__proto__'' \<and> map_of ob k = None then ob else AList.update k v ob)"

text \<open>The own enumerable properties an object spread \<^verbatim>\<open>{...v}\<close> copies; the spread
  defines each as an own property of the new object, whatever its name.\<close>

fun ownEntries :: "jsval \<Rightarrow> obj" where
  "ownEntries (JObj kvs) = kvs"
| "ownEntries (JArr xs) = zip (map dec [0..<length xs]) xs"
| "ownEntries (JStr s) = zip (map dec [0..<length s]) (map (\<lambda>c. JStr [c]) s)"
| "ownEntries v = []"

definition assign :: "obj \<Rightarrow> obj \<Rightarrow> obj" where
  "assign target source = fold (\<lambda>(k, v). AList.update k v) source target"

text \<open>\<^verbatim>\<open>{ ...a, ...b }\<close> on the entries of \<open>a\<close> and \<open>b\<close>.\<close>

definition spread2 :: "obj \<Rightarrow> obj \<Rightarrow> obj" where
  "spread2 a b = assign (assign [] a) b"

section \<open>The execution context\<close>

text \<open>
  \<^verbatim>\<open>IExecuteFunctions\<close>, as far as the module uses it: \<^verbatim>\<open>getNodeParameter(name, itemIndex,
  fallback?)\<close>, \<^verbatim>\<open>getCredentials(type, itemIndex)\<close> and \<^verbatim>\<open>getNode()\<close> (the node, by its
  name). The casts \<^verbatim>\<open>as string\<close>, \<^verbatim>\<open>as boolean\<close>, \<^verbatim>\<open>as number\<close> of the source check nothing,
  so a parameter is a \<open>jsval\<close>.
\<close>

record ctx =
  getNodeParameter :: "string \<Rightarrow> nat \<Rightarrow> jsval option \<Rightarrow> error + jsval"
  getCredentials :: "string \<Rightarrow> nat \<Rightarrow> error + obj"
  getNode :: string

definition field :: "obj \<Rightarrow> string \<Rightarrow> jsval" where
  "field r k = (case map_of r k of Some v \<Rightarrow> v | None \<Rightarrow> JUndefined)"

section \<open>Requests and the collaborators' calls\<close>

record authOptions =
  username :: jsval
  password :: jsval
  sendImmediately :: "bool option"

text \<open>\<^verbatim>\<open>IHttpRequestOptions\<close>: the fields the strategies touch, the url, and the remaining
  properties together.\<close>

record requestOptions =
  url :: string
  headers :: "obj option"
  qs :: "obj option"
  body :: jsval
  auth :: "authOptions option"
  others :: obj

text \<open>\<^verbatim>\<open>IOAuth2Options\<close>; every property is optional.\<close>

record oauth2Options =
  tokenType :: "string option"
  keepBearer :: "bool option"
  includeCredentialsOnRefreshOnBody :: "bool option"
  tokenExpiredStatusCode :: "nat option"
  property :: "string option"
  keyToIncludeInAccessTokenHeader :: "string option"

definition noOptions :: oauth2Options where
  "noOptions = \<lparr>tokenType = None, keepBearer = None,
     includeCredentialsOnRefreshOnBody = None, tokenExpiredStatusCode = None,
     property = None, keyToIncludeInAccessTokenHeader = None\<rparr>"

text \<open>What \<^verbatim>\<open>oAuth2Options[nodeCredentialType]\<close> evaluates to when it is not
  \<^verbatim>\<open>undefined\<close>: an entry of the table, or a value the object literal inherits.\<close>

datatype additionalParameters = TableEntry oauth2Options | InheritedValue jsval

text \<open>The third argument of \<^verbatim>\<open>requestWithAuthentication\<close>: \<^verbatim>\<open>{ oauth2: ... }\<close>, or
  \<^verbatim>\<open>undefined\<close> (\<open>None\<close>).\<close>

record additionalCredentialOptions =
  oauth2 :: additionalParameters

text \<open>
  Each function the dispatcher returns ends in one call of a helper of the context and
  returns what that call returns. The model returns the call: the helper and its
  arguments, the request as the strategy has left it.
\<close>

datatype call =
    HttpRequest requestOptions
  | RequestOAuth1 string requestOptions
  | RequestOAuth2 string requestOptions oauth2Options
  | RequestWithAuthentication jsval requestOptions "additionalCredentialOptions option" nat

section \<open>getOAuth2AdditionalParameters\<close>

definition oAuth2Options :: "(string \<times> oauth2Options) list" where
  "oAuth2Options =
    [(''bitlyOAuth2Api'', noOptions\<lparr>tokenType := Some ''Bearer''\<rparr>),
     (''boxOAuth2Api'', noOptions\<lparr>includeCredentialsOnRefreshOnBody := Some True\<rparr>),
     (''ciscoWebexOAuth2Api'', noOptions\<lparr>tokenType := Some ''Bearer''\<rparr>),
     (''clickUpOAuth2Api'', noOptions\<lparr>keepBearer := Some False, tokenType := Some ''Bearer''\<rparr>),
     (''goToWebinarOAuth2Api'', noOptions\<lparr>tokenExpiredStatusCode := Some 403\<rparr>),
     (''hubspotDeveloperApi'',
        noOptions\<lparr>tokenType := Some ''Bearer'', includeCredentialsOnRefreshOnBody := Some True\<rparr>),
     (''hubspotOAuth2Api'',
        noOptions\<lparr>tokenType := Some ''Bearer'', includeCredentialsOnRefreshOnBody := Some True\<rparr>),
     (''lineNotifyOAuth2Api'', noOptions\<lparr>tokenType := Some ''Bearer''\<rparr>),
     (''linkedInOAuth2Api'', noOptions\<lparr>tokenType := Some ''Bearer''\<rparr>),
     (''mailchimpOAuth2Api'', noOptions\<lparr>tokenType := Some ''Bearer''\<rparr>),
     (''mauticOAuth2Api'', noOptions\<lparr>includeCredentialsOnRefreshOnBody := Some True\<rparr>),
     (''microsoftDynamicsOAuth2Api'', noOptions\<lparr>property := Some ''id_token''\<rparr>),
     (''philipsHueOAuth2Api'', noOptions\<lparr>tokenType := Some ''Bearer''\<rparr>),
     (''raindropOAuth2Api'', noOptions\<lparr>includeCredentialsOnRefreshOnBody := Some True\<rparr>),
     (''shopifyOAuth2Api'',
        noOptions\<lparr>tokenType := Some ''Bearer'',
          keyToIncludeInAccessTokenHeader := Some ''X-Shopify-Access-Token''\<rparr>),
     (''slackOAuth2Api'',
        noOptions\<lparr>tokenType := Some ''Bearer'', property := Some ''authed_user.access_token''\<rparr>),
     (''stravaOAuth2Api'', noOptions\<lparr>includeCredentialsOnRefreshOnBody := Some True\<rparr>)]"

text \<open>\<^verbatim>\<open>return oAuth2Options[nodeCredentialType]\<close>: a property read on the object literal,
  which answers its seventeen own keys and the names it inherits.\<close>

definition getOAuth2AdditionalParameters :: "string \<Rightarrow> additionalParameters option" where
  "getOAuth2AdditionalParameters nodeCredentialType =
     (case map_of oAuth2Options nodeCredentialType of
        Some e \<Rightarrow> Some (TableEntry e)
      | None \<Rightarrow> map_option InheritedValue (map_of objectPrototype nodeCredentialType))"

section \<open>jsonParse\<close>

text \<open>Modelled from the spec: \<^verbatim>\<open>jsonParse\<close> of the package \<^verbatim>\<open>n8n-workflow\<close> is imported by
  the module and is not among the sources. By the spec it parses the string as JSON
  and fails when the string is malformed. The error it then raises is the runtime's
  parameter \<open>jsonParse_error\<close>, applied to the two arguments the source passes: the
  string and the optional \<^verbatim>\<open>errorMessage\<close>.
\<close>

definition jsonParse :: "lib \<Rightarrow> jsval \<Rightarrow> string option \<Rightarrow> error + jsval" where
  "jsonParse L jsonString errorMessage =
     (case JSON_parse L (toStr L jsonString) of
        Some v \<Rightarrow> Inr v
      | None \<Rightarrow> Inl (jsonParse_error L (toStr L jsonString) errorMessage))"

text \<open>Modelled from the spec: the error of \<^verbatim>\<open>jsonParse\<close> in the spec's words. Of the
  custom-auth call the spec says it "fails with ParseError if malformed, message Invalid
  Custom Auth JSON", and of the call without options that "malformed JSON propagates a
  parse failure".\<close>

definition spec_jsonParse_error :: "string \<Rightarrow> string option \<Rightarrow> error" where
  "spec_jsonParse_error jsonString errorMessage =
     (case errorMessage of Some m \<Rightarrow> ParseError m | None \<Rightarrow> ParseFailure)"

section \<open>configureHttpRequestFunction\<close>

datatype authMode = AuthPredefinedCredentialType | AuthGenericCredentialType | AuthNone

text \<open>The function of the last \<^verbatim>\<open>return\<close>: the plain transport call.\<close>

definition plainRequest :: "requestOptions \<Rightarrow> error + call" where
  "plainRequest requestOptions = Inr (HttpRequest requestOptions)"

definition basicAuthRequest :: "obj \<Rightarrow> bool option \<Rightarrow> requestOptions \<Rightarrow> error + call" where
  "basicAuthRequest httpBasicAuth sendImm requestOptions =
     Inr (HttpRequest (requestOptions\<lparr>auth := Some
       \<lparr>username = field httpBasicAuth ''user'',
        password = field httpBasicAuth ''password'',
        sendImmediately = sendImm\<rparr>\<rparr>))"

text \<open>\<^verbatim>\<open>requestOptions.headers![name] = value\<close>: the assertion \<^verbatim>\<open>!\<close> checks nothing, and
  the assignment throws when \<^verbatim>\<open>headers\<close> is undefined.\<close>

definition headerAuthRequest :: "lib \<Rightarrow> obj \<Rightarrow> requestOptions \<Rightarrow> error + call" where
  "headerAuthRequest L httpHeaderAuth requestOptions =
     (case headers requestOptions of
        None \<Rightarrow> Inl (TypeError ''Cannot set properties of undefined'')
      | Some h \<Rightarrow>
          Inr (HttpRequest (requestOptions\<lparr>headers := Some
            (setProp h (toStr L (field httpHeaderAuth ''name''))
               (field httpHeaderAuth ''value''))\<rparr>)))"

definition queryAuthRequest :: "lib \<Rightarrow> obj \<Rightarrow> requestOptions \<Rightarrow> error + call" where
  "queryAuthRequest L httpQueryAuth requestOptions =
     (let q = (case qs requestOptions of None \<Rightarrow> [] | Some q \<Rightarrow> q)
      in Inr (HttpRequest (requestOptions\<lparr>qs := Some
           (setProp q (toStr L (field httpQueryAuth ''name''))
              (field httpQueryAuth ''value''))\<rparr>)))"

definition entriesOf :: "obj option \<Rightarrow> obj" where
  "entriesOf ob = (case ob of None \<Rightarrow> [] | Some kvs \<Rightarrow> kvs)"

definition customAuthRequest :: "lib \<Rightarrow> obj \<Rightarrow> requestOptions \<Rightarrow> error + call" where
  "customAuthRequest L httpCustomAuth requestOptions =
     andThen
       (jsonParse L
          (if truthy (field httpCustomAuth ''json'') then field httpCustomAuth ''json''
           else JStr ''{}'')
          (Some ''Invalid Custom Auth JSON''))
       (\<lambda>customAuth.
     andThen (getProp L customAuth ''headers'') (\<lambda>customHeaders.
     let r1 = (if truthy customHeaders
               then requestOptions\<lparr>headers := Some
                      (spread2 (entriesOf (headers requestOptions)) (ownEntries customHeaders))\<rparr>
               else requestOptions)
     in andThen (getProp L customAuth ''body'') (\<lambda>customBody.
     let r2 = (if truthy customBody
               then r1\<lparr>body := JObj (spread2 (ownEntries (body r1)) (ownEntries customBody))\<rparr>
               else r1)
     in andThen (getProp L customAuth ''qs'') (\<lambda>customQs.
     let r3 = (if truthy customQs
               then r2\<lparr>qs := Some (spread2 (entriesOf (qs r2)) (ownEntries customQs))\<rparr>
               else r2)
     in Inr (HttpRequest r3)))))"

definition oAuth1Request :: "requestOptions \<Rightarrow> error + call" where
  "oAuth1Request requestOptions = Inr (RequestOAuth1 ''oAuth1Api'' requestOptions)"

definition oAuth2Request :: "requestOptions \<Rightarrow> error + call" where
  "oAuth2Request requestOptions =
     Inr (RequestOAuth2 ''oAuth1Api'' requestOptions (noOptions\<lparr>tokenType := Some ''Bearer''\<rparr>))"

text \<open>\<^verbatim>\<open>additionalOAuth2Options && { oauth2: additionalOAuth2Options }\<close>: every value the
  lookup gives is an object or a function, hence truthy.\<close>

definition predefinedRequest ::
  "jsval \<Rightarrow> additionalParameters option \<Rightarrow> nat \<Rightarrow> requestOptions \<Rightarrow> error + call" where
  "predefinedRequest nodeCredentialType additionalOAuth2Options itemIndex requestOptions =
     Inr (RequestWithAuthentication nodeCredentialType requestOptions
       (case additionalOAuth2Options of None \<Rightarrow> None | Some e \<Rightarrow> Some \<lparr>oauth2 = e\<rparr>)
       itemIndex)"

definition configureHttpRequestFunction ::
  "lib \<Rightarrow> ctx \<Rightarrow> authMode \<Rightarrow> nat \<Rightarrow> error + (requestOptions \<Rightarrow> error + call)" where
  "configureHttpRequestFunction L c authm itemIndex =
     (case authm of
        AuthGenericCredentialType \<Rightarrow>
          andThen (getNodeParameter c ''genericAuthType'' itemIndex None) (\<lambda>genericCredentialType.
            if genericCredentialType = JStr ''httpBasicAuth''
               \<or> genericCredentialType = JStr ''httpDigestAuth'' then
              andThen (getCredentials c ''httpBasicAuth'' itemIndex) (\<lambda>httpBasicAuth.
                Inr (basicAuthRequest httpBasicAuth
                  (if genericCredentialType = JStr ''httpDigestAuth'' then Some False else None)))
            else if genericCredentialType = JStr ''httpHeaderAuth'' then
              andThen (getCredentials c ''httpHeaderAuth'' itemIndex) (\<lambda>httpHeaderAuth.
                Inr (headerAuthRequest L httpHeaderAuth))
            else if genericCredentialType = JStr ''httpQueryAuth'' then
              andThen (getCredentials c ''httpQueryAuth'' itemIndex) (\<lambda>httpQueryAuth.
                Inr (queryAuthRequest L httpQueryAuth))
            else if genericCredentialType = JStr ''httpCustomAuth'' then
              andThen (getCredentials c ''httpCustomAuth'' itemIndex) (\<lambda>httpCustomAuth.
                Inr (customAuthRequest L httpCustomAuth))
            else if genericCredentialType = JStr ''oAuth1Api'' then Inr oAuth1Request
            else if genericCredentialType = JStr ''oAuth2Api'' then Inr oAuth2Request
            else Inr plainRequest)
      | AuthPredefinedCredentialType \<Rightarrow>
          andThen (getNodeParameter c ''nodeCredentialType'' itemIndex None) (\<lambda>nodeCredentialType.
            Inr (predefinedRequest nodeCredentialType
                   (getOAuth2AdditionalParameters (toStr L nodeCredentialType)) itemIndex))
      | AuthNone \<Rightarrow> Inr plainRequest)"

text \<open>Building a function and calling it on one argument.\<close>

definition applyBuilt :: "error + ('a \<Rightarrow> error + 'b) \<Rightarrow> 'a \<Rightarrow> error + 'b" where
  "applyBuilt built x = andThen built (\<lambda>f. f x)"

text \<open>The seven kinds the dispatcher compares \<^verbatim>\<open>genericAuthType\<close> with.\<close>

definition genericCredentialKinds :: "string list" where
  "genericCredentialKinds =
     [''httpBasicAuth'', ''httpDigestAuth'', ''httpHeaderAuth'', ''httpQueryAuth'',
      ''httpCustomAuth'', ''oAuth1Api'', ''oAuth2Api'']"

section \<open>Strings\<close>

text \<open>White space as \<^verbatim>\<open>trim\<close> and the class \<^verbatim>\<open>\s\<close> see it, among the code units below
  256 that a character of the model stands for: tab, line feed, vertical tab, form
  feed, carriage return, space and the no-break space U+00A0.\<close>

definition isSpace :: "char \<Rightarrow> bool" where
  "isSpace ch =
     (ch \<in> set [CHR 0x09, CHR 0x0A, CHR 0x0B, CHR 0x0C, CHR 0x0D, CHR 0x20, CHR 0xA0])"

definition trim :: "string \<Rightarrow> string" where
  "trim s = rev (dropWhile isSpace (rev (dropWhile isSpace s)))"

text \<open>\<^verbatim>\<open>s.split(sep)\<close> for a separator of one character; the empty string splits into
  one empty piece.\<close>

fun splitOn :: "char \<Rightarrow> string \<Rightarrow> string list" where
  "splitOn sep [] = [[]]"
| "splitOn sep (x # xs) =
     (if x = sep then [] # splitOn sep xs
      else (case splitOn sep xs of
              [] \<Rightarrow> [[x]]
            | w # ws \<Rightarrow> (x # w) # ws))"

text \<open>\<^verbatim>\<open>.replace(/(\r\n|\n|\r)/gm, '')\<close>.\<close>

definition removeNewlines :: "string \<Rightarrow> string" where
  "removeNewlines s = filter (\<lambda>ch. ch \<noteq> CHR 0x0D \<and> ch \<noteq> CHR 0x0A) s"

text \<open>\<^verbatim>\<open>.replace(/\s+/g, ' ')\<close>: the flag says whether the previous character was white
  space.\<close>

fun collapseFrom :: "bool \<Rightarrow> string \<Rightarrow> string" where
  "collapseFrom inRun [] = []"
| "collapseFrom inRun (ch # cs) =
     (if isSpace ch then
        (if inRun then collapseFrom True cs else CHR 0x20 # collapseFrom True cs)
      else ch # collapseFrom False cs)"

text \<open>\<^verbatim>\<open>value.trim().replace(/^\s+|\s+$/g, '').replace(/(\r\n|\n|\r)/gm, '').replace(/\s+/g, ' ')\<close>.\<close>

definition normalizeWhitespace :: "string \<Rightarrow> string" where
  "normalizeWhitespace v = collapseFrom False (removeNewlines (trim (trim v)))"

text \<open>\<^verbatim>\<open>s.substring(a, b)\<close>: both ends are clamped to the string and swapped when out of
  order.\<close>

definition substring :: "string \<Rightarrow> int \<Rightarrow> int \<Rightarrow> string" where
  "substring s a b =
     (let n = int (length s);
          a' = min (max a 0) n;
          b' = min (max b 0) n
      in take (nat (max a' b' - min a' b')) (drop (nat (min a' b')) s))"

section \<open>configureResponseOptimizer\<close>

definition stringRequired :: "ctx \<Rightarrow> nat \<Rightarrow> jsval \<Rightarrow> error" where
  "stringRequired c itemIndex response =
     NodeOperationError (getNode c)
       (''The response type must be a string. Received: '' @ typeof response) itemIndex"

text \<open>The function returned for \<^verbatim>\<open>responseType === 'html'\<close>.\<close>

definition htmlOptimizer ::
  "lib \<Rightarrow> ctx \<Rightarrow> nat \<Rightarrow> jsval \<Rightarrow> jsval \<Rightarrow> string list \<Rightarrow> jsval \<Rightarrow> error + string" where
  "htmlOptimizer L c itemIndex cssSelector onlyContent elementsToOmit response =
     (if typeof response \<noteq> ''string'' then Inl (stringRequired c itemIndex response)
      else
        andThen (cheerio_select L (toStr L response) cssSelector) (\<lambda>htmlElements.
        andThen
          (mapE (\<lambda>el.
                   let value = (case el of None \<Rightarrow> [] | Some h \<Rightarrow> h)
                   in andThen
                        (if truthy onlyContent
                         then convert L value
                                (if elementsToOmit \<noteq> [] then Some elementsToOmit else None)
                         else Inr value)
                        (\<lambda>value'. Inr (normalizeWhitespace value')))
             htmlElements)
          (\<lambda>returnData. Inr (JSON_stringify L (JArr (map JStr returnData))))))"

text \<open>The function returned for \<^verbatim>\<open>responseType === 'text'\<close>.\<close>

definition textOptimizer :: "lib \<Rightarrow> ctx \<Rightarrow> nat \<Rightarrow> jsval \<Rightarrow> jsval \<Rightarrow> error + string" where
  "textOptimizer L c itemIndex maxLength response =
     (if typeof response \<noteq> ''string'' then Inl (stringRequired c itemIndex response)
      else
        (case toNum L maxLength of
           None \<Rightarrow> Inr (toStr L response)
         | Some m \<Rightarrow>
             if m > 0 \<and> int (length (toStr L response)) > m
             then Inr (substring (toStr L response) 0 m)
             else Inr (toStr L response)))"

text \<open>Lines 283 to 298: the working array, from the parsed response and \<^verbatim>\<open>dataField\<close>.\<close>

definition unwrapDataField :: "lib \<Rightarrow> jsval \<Rightarrow> jsval \<Rightarrow> error + jsval list" where
  "unwrapDataField L dataField responseData =
     (case responseData of
        JArr xs \<Rightarrow>
          if truthy dataField
          then mapE (\<lambda>data. getProp L data (toStr L dataField)) xs
          else Inr xs
      | _ \<Rightarrow>
          if truthy dataField
          then andThen (getProp L responseData (toStr L dataField))
                 (\<lambda>data. Inr (case data of JArr ys \<Rightarrow> ys | _ \<Rightarrow> [data]))
          else Inr [responseData])"

text \<open>\<^verbatim>\<open>fields.split(',').map((field) => field.trim())\<close> when \<^verbatim>\<open>fields\<close> is a string.\<close>

definition splitFields :: "lib \<Rightarrow> jsval \<Rightarrow> jsval" where
  "splitFields L fieldList =
     (if typeof fieldList = ''string''
      then JArr (map (\<lambda>f. JStr (trim f)) (splitOn CHR '','' (toStr L fieldList)))
      else fieldList)"

text \<open>What \<^verbatim>\<open>for (const field of fields)\<close> goes through.\<close>

fun iterate :: "jsval \<Rightarrow> error + jsval list" where
  "iterate (JArr xs) = Inr xs"
| "iterate (JStr s) = Inr (map (\<lambda>ch. JStr [ch]) s)"
| "iterate v = Inl (TypeError ''fields is not iterable'')"

definition selectFields :: "lib \<Rightarrow> jsval \<Rightarrow> jsval \<Rightarrow> error + jsval" where
  "selectFields L fieldList item =
     andThen (iterate fieldList)
       (\<lambda>fs. Inr (fold (\<lambda>f newItem. lodash_set L newItem f (lodash_get L item f)) fs (JObj [])))"

definition omitFields :: "lib \<Rightarrow> jsval \<Rightarrow> jsval \<Rightarrow> error + jsval" where
  "omitFields L fieldList item =
     andThen (iterate fieldList) (\<lambda>fs. Inr (fold (\<lambda>f it. lodash_unset L it f) fs item))"

text \<open>The function returned for \<^verbatim>\<open>responseType === 'json'\<close>.\<close>

definition jsonOptimizer :: "lib \<Rightarrow> ctx \<Rightarrow> nat \<Rightarrow> jsval \<Rightarrow> error + string" where
  "jsonOptimizer L c itemIndex response =
     andThen (if typeof response = ''string'' then jsonParse L response None else Inr response)
       (\<lambda>parsed.
     if typeof parsed \<noteq> ''object'' \<or> \<not> truthy parsed then
       Inl (NodeOperationError (getNode c)
              ''The response type must be an object or an array of objects'' itemIndex)
     else
     andThen (getNodeParameter c ''dataField'' itemIndex (Some (JStr []))) (\<lambda>dataField.
     andThen (unwrapDataField L dataField parsed) (\<lambda>responseData.
     andThen (getNodeParameter c ''fieldsToInclude'' itemIndex (Some (JStr ''all'')))
       (\<lambda>fieldsToInclude.
     andThen
       (if fieldsToInclude \<noteq> JStr ''all'' then
          andThen (getNodeParameter c ''fields'' itemIndex (Some (JArr [])))
            (\<lambda>fieldList. Inr (splitFields L fieldList, []))
        else Inr (JArr [], responseData))
       (\<lambda>(fieldList, returnData0).
     andThen
       (if fieldsToInclude = JStr ''selected'' then
          andThen (mapE (selectFields L fieldList) responseData)
            (\<lambda>items. Inr (returnData0 @ items))
        else Inr returnData0)
       (\<lambda>returnData1.
     andThen
       (if fieldsToInclude = JStr ''except'' then
          andThen (mapE (omitFields L fieldList) responseData)
            (\<lambda>items. Inr (returnData1 @ items))
        else Inr returnData1)
       (\<lambda>returnData. Inr (JSON_stringify L (JArr returnData)))))))))"

text \<open>The function of the last \<^verbatim>\<open>return\<close>: the fallback serializer.\<close>

definition fallbackSerializer :: "lib \<Rightarrow> jsval \<Rightarrow> error + string" where
  "fallbackSerializer L response =
     (if typeof response = ''string'' then Inr (toStr L response)
      else if typeof response = ''object'' then Inr (JSON_stringify L response)
      else Inr (toStr L response))"

definition configureResponseOptimizer ::
  "lib \<Rightarrow> ctx \<Rightarrow> nat \<Rightarrow> error + (jsval \<Rightarrow> error + string)" where
  "configureResponseOptimizer L c itemIndex =
     andThen (getNodeParameter c ''optimizeResponse'' itemIndex (Some (JBool False)))
       (\<lambda>optimizeResponse.
     if truthy optimizeResponse then
       andThen (getNodeParameter c ''responseType'' itemIndex None) (\<lambda>responseType.
         if responseType = JStr ''html'' then
           andThen (getNodeParameter c ''cssSelector'' itemIndex (Some (JStr []))) (\<lambda>cssSelector.
           andThen (getNodeParameter c ''onlyContent'' itemIndex (Some (JBool False)))
             (\<lambda>onlyContent.
           andThen
             (if truthy onlyContent then
                andThen (getNodeParameter c ''elementsToOmit'' itemIndex (Some (JStr [])))
                  (\<lambda>elementsToOmitUi.
                     Inr (if typeof elementsToOmitUi = ''string''
                          then map trim (splitOn CHR '','' (toStr L elementsToOmitUi))
                          else []))
              else Inr [])
             (\<lambda>elementsToOmit.
                Inr (htmlOptimizer L c itemIndex cssSelector onlyContent elementsToOmit))))
         else if responseType = JStr ''text'' then
           andThen (getNodeParameter c ''maxLength'' itemIndex (Some (JNum 0)))
             (\<lambda>maxLength. Inr (textOptimizer L c itemIndex maxLength))
         else if responseType = JStr ''json'' then Inr (jsonOptimizer L c itemIndex)
         else Inr (fallbackSerializer L))
     else Inr (fallbackSerializer L))"

section \<open>Sample contexts for the closed examples\<close>

text \<open>A context whose node parameters are a table (a parameter that is not set yields
  the fallback, and fails without one) and whose credentials are the same record for
  every item.\<close>

definition sampleCtx :: "obj \<Rightarrow> obj \<Rightarrow> ctx" where
  "sampleCtx params creds =
     \<lparr>getNodeParameter = (\<lambda>name i fallback.
        case map_of params name of
          Some v \<Rightarrow> Inr v
        | None \<Rightarrow> (case fallback of
                     Some v \<Rightarrow> Inr v
                   | None \<Rightarrow> Inl (CollaboratorError ''Could not get parameter''))),
      getCredentials = (\<lambda>t i. Inr creds),
      getNode = ''HTTP Request Tool''\<rparr>"

text \<open>A runtime for the closed examples. \<open>JSON_parse\<close> knows the documents \<^verbatim>\<open>{}\<close> and
  \<^verbatim>\<open>[]\<close> and rejects the malformed strings the examples use; \<open>jsonParse_error\<close> is
  the spec's; no example reaches the other components.\<close>

definition sampleLib :: lib where
  "sampleLib =
     \<lparr>JSON_parse = map_of [(''{}'', JObj []), (''[]'', JArr [])],
      JSON_stringify = (\<lambda>v. []),
      ToString = (\<lambda>v. []),
      ToNumber = (\<lambda>v. None),
      inherited = (\<lambda>v k. None),
      jsonParse_error = spec_jsonParse_error,
      lodash_get = (\<lambda>v p. JUndefined),
      lodash_set = (\<lambda>v p x. v),
      lodash_unset = (\<lambda>v p. v),
      cheerio_select = (\<lambda>d s. Inr []),
      convert = (\<lambda>h sel. Inr h)\<rparr>"

definition sampleRequest :: requestOptions where
  "sampleRequest =
     \<lparr>url = ''https://example.com/items'',
      headers = Some [(''Accept'', JStr ''application/json'')],
      qs = Some [(''page'', JNum 1)],
      body = JUndefined,
      auth = None,
      others = [(''method'', JStr ''GET'')]\<rparr>"

definition headerAuthCtx :: ctx where
  "headerAuthCtx = sampleCtx [(''genericAuthType'', JStr ''httpHeaderAuth'')]
     [(''name'', JStr ''X-Key''), (''value'', JStr ''v1'')]"

definition customAuthCtx :: "obj \<Rightarrow> ctx" where
  "customAuthCtx creds = sampleCtx [(''genericAuthType'', JStr ''httpCustomAuth'')] creds"

definition optimizerCtx :: "obj \<Rightarrow> ctx" where
  "optimizerCtx params = sampleCtx ((''optimizeResponse'', JBool True) # params) []"

section \<open>The spec's readings, for comparison\<close>

text \<open>The spec on \<^verbatim>\<open>dataField\<close>: "extract the field by dotted path", a path such as
  \<^verbatim>\<open>a.b\<close> reaching the field \<^verbatim>\<open>b\<close> inside \<^verbatim>\<open>a\<close>, a missing segment reading as
  \<^verbatim>\<open>undefined\<close>.\<close>

fun spec_getPath :: "lib \<Rightarrow> jsval \<Rightarrow> string list \<Rightarrow> jsval" where
  "spec_getPath L v [] = v"
| "spec_getPath L v (k # ks) =
     (case getProp L v k of Inl e \<Rightarrow> JUndefined | Inr x \<Rightarrow> spec_getPath L x ks)"

definition spec_dottedGet :: "lib \<Rightarrow> jsval \<Rightarrow> string \<Rightarrow> jsval" where
  "spec_dottedGet L v path = spec_getPath L v (splitOn CHR ''.'' path)"

definition spec_unwrapDataField :: "lib \<Rightarrow> string \<Rightarrow> jsval \<Rightarrow> jsval list" where
  "spec_unwrapDataField L dataField responseData =
     (case responseData of
        JArr xs \<Rightarrow> map (\<lambda>x. spec_dottedGet L x dataField) xs
      | _ \<Rightarrow> (case spec_dottedGet L responseData dataField of JArr ys \<Rightarrow> ys | d \<Rightarrow> [d]))"

text \<open>The spec on malformed custom-auth JSON: a parse error with the given message
  that carries the offending item index.\<close>

definition spec_parseErrorAt :: "error + call \<Rightarrow> string \<Rightarrow> nat \<Rightarrow> bool" where
  "spec_parseErrorAt result msg itemIndex =
     (case result of
        Inl e \<Rightarrow> error_message e = Some msg \<and> error_itemIndex e = Some itemIndex
      | Inr x \<Rightarrow> False)"

text \<open>The spec on a response that is not a string:
  \<^verbatim>\<open>TypeError("response must be a string")\<close>.\<close>

definition spec_stringRequired :: error where
  "spec_stringRequired = TypeError ''response must be a string''"

section \<open>Basic facts\<close>

lemma andThen_simps:
  "andThen (Inl e) f = Inl e" "andThen (Inr x) f = f x"
  by (simp_all add: andThen_def)

lemma toStr_JStr: "toStr L (JStr s) = s"
  by (simp add: toStr_def)

lemma getProp_defined:
  "v \<noteq> JNull \<Longrightarrow> v \<noteq> JUndefined \<Longrightarrow> \<exists>y. getProp L v k = Inr y"
  by (cases v) simp_all

lemma mapE_Inr:
  assumes "\<forall>x\<in>set xs. \<exists>y. f x = Inr y"
  shows "\<exists>ys. mapE f xs = Inr ys \<and> length ys = length xs \<and>
          (\<forall>i<length xs. f (xs ! i) = Inr (ys ! i))"
  using assms
proof (induction xs)
  case Nil
  then show ?case by simp
next
  case (Cons x xs)
  then obtain y where y: "f x = Inr y" by auto
  from Cons obtain ys where ys: "mapE f xs = Inr ys" "length ys = length xs"
    "\<forall>i<length xs. f (xs ! i) = Inr (ys ! i)" by auto
  have "\<forall>i<length (x # xs). f ((x # xs) ! i) = Inr ((y # ys) ! i)"
    using y ys(3) by (auto simp: nth_Cons split: nat.splits)
  with y ys show ?case by simp
qed

text \<open>What a plain object inherits is a function or \<^verbatim>\<open>Object.prototype\<close>: never an
  array, and always truthy.\<close>

lemma objectPrototype_values:
  assumes "map_of objectPrototype k = Some p"
  shows "(\<exists>f. p = JFunction f) \<or> p = JObjectPrototype"
proof -
  from assms have "(k, p) \<in> set objectPrototype" by (rule map_of_SomeD)
  then show ?thesis by (auto simp: objectPrototype_def)
qed

lemma inherited_lookup_truthy:
  assumes "getOAuth2AdditionalParameters t = Some (InheritedValue p)"
  shows "truthy p"
proof -
  from assms have "map_of objectPrototype t = Some p"
    by (auto simp: getOAuth2AdditionalParameters_def split: option.splits)
  from objectPrototype_values [OF this] show ?thesis by auto
qed

text \<open>The names the custom-auth strategy reads are not inherited by a plain object.\<close>

lemma custom_auth_names_not_inherited:
  "map_of objectPrototype ''headers'' = None"
  "map_of objectPrototype ''body'' = None"
  "map_of objectPrototype ''qs'' = None"
  by (simp_all add: objectPrototype_def)

text \<open>What \<open>configureResponseOptimizer\<close> returns for the kinds \<^verbatim>\<open>text\<close> and \<^verbatim>\<open>html\<close>.\<close>

lemma configure_text:
  assumes "getNodeParameter c ''optimizeResponse'' i (Some (JBool False)) = Inr opt"
    and "truthy opt"
    and "getNodeParameter c ''responseType'' i None = Inr (JStr ''text'')"
    and "getNodeParameter c ''maxLength'' i (Some (JNum 0)) = Inr maxLength"
  shows "configureResponseOptimizer L c i = Inr (textOptimizer L c i maxLength)"
  using assms by (simp add: configureResponseOptimizer_def andThen_simps)

lemma configure_text_built:
  assumes "getNodeParameter c ''optimizeResponse'' i (Some (JBool False)) = Inr opt"
    and "truthy opt"
    and "getNodeParameter c ''responseType'' i None = Inr (JStr ''text'')"
    and "configureResponseOptimizer L c i = Inr f"
  shows "\<exists>maxLength. f = textOptimizer L c i maxLength"
  using assms
  by (auto simp: configureResponseOptimizer_def andThen_def split: sum.splits if_splits)

lemma configure_html_built:
  assumes "getNodeParameter c ''optimizeResponse'' i (Some (JBool False)) = Inr opt"
    and "truthy opt"
    and "getNodeParameter c ''responseType'' i None = Inr (JStr ''html'')"
    and "configureResponseOptimizer L c i = Inr f"
  shows "\<exists>cssSelector onlyContent elementsToOmit.
           f = htmlOptimizer L c i cssSelector onlyContent elementsToOmit"
  using assms
  by (auto simp: configureResponseOptimizer_def andThen_def split: sum.splits if_splits)

text \<open>The custom-auth strategy on a credential string that is not empty and that
  \<^verbatim>\<open>JSON.parse\<close> rejects: the error is the one \<^verbatim>\<open>jsonParse\<close> raises for the string and
  the message, whatever the request.\<close>

lemma customAuthRequest_malformed:
  assumes "field creds ''json'' = JStr s" and "s \<noteq> []" and "JSON_parse L s = None"
  shows "customAuthRequest L creds req
     = Inl (jsonParse_error L s (Some ''Invalid Custom Auth JSON''))"
  using assms by (simp add: customAuthRequest_def jsonParse_def toStr_JStr andThen_simps)

lemma custom_auth_dispatch:
  assumes "getNodeParameter c ''genericAuthType'' i None = Inr (JStr ''httpCustomAuth'')"
    and "getCredentials c ''httpCustomAuth'' i = Inr creds"
  shows "applyBuilt (configureHttpRequestFunction L c AuthGenericCredentialType i) req
     = customAuthRequest L creds req"
  using assms by (simp add: configureHttpRequestFunction_def applyBuilt_def andThen_simps)

text \<open>An error that carries an item index carries one.\<close>

lemma spec_parseErrorAt_index:
  assumes "spec_parseErrorAt r msg i" and "spec_parseErrorAt r msg j"
  shows "i = j"
  using assms by (auto simp: spec_parseErrorAt_def split: sum.splits)

section \<open>The json optimizer and dataField\<close>

text \<open>The working array is what the json optimizer serializes when all fields are
  kept: the function returned is \<open>unwrapDataField\<close> followed by \<^verbatim>\<open>JSON.stringify\<close>.\<close>

lemma jsonOptimizer_all:
  assumes "typeof parsed = ''object''" and "truthy parsed"
    and "getNodeParameter c ''dataField'' i (Some (JStr [])) = Inr dataField"
    and "getNodeParameter c ''fieldsToInclude'' i (Some (JStr ''all'')) = Inr (JStr ''all'')"
  shows "jsonOptimizer L c i parsed
     = andThen (unwrapDataField L dataField parsed)
         (\<lambda>workingArray. Inr (JSON_stringify L (JArr workingArray)))"
  using assms
  by (cases "unwrapDataField L dataField parsed") (simp_all add: jsonOptimizer_def andThen_simps)

text \<open>
  Claim C1 reads \<^verbatim>\<open>dataField\<close> as a dotted path. The source reads
  \<^verbatim>\<open>responseData[dataField]\<close> and \<^verbatim>\<open>data[dataField]\<close>: one property, named by the whole
  string. On \<^verbatim>\<open>{"a": {"b": [1, 2]}}\<close> with \<^verbatim>\<open>dataField = "a.b"\<close> the working array is
  \<^verbatim>\<open>[undefined]\<close>, where the dotted path gives \<^verbatim>\<open>[1, 2]\<close>; on \<^verbatim>\<open>[{"a": {"b": 1}}]\<close> it is
  \<^verbatim>\<open>[undefined]\<close>, where the dotted path gives \<^verbatim>\<open>[1]\<close>; and on \<^verbatim>\<open>[null]\<close> the property
  read throws, where a path read gives \<^verbatim>\<open>[undefined]\<close>.
\<close>

theorem dataField_dotted_path_counterexample:
  "unwrapDataField sampleLib (JStr ''a.b'') (JObj [(''a'', JObj [(''b'', JArr [JNum 1, JNum 2])])])
     = Inr [JUndefined] \<and>
   spec_unwrapDataField sampleLib ''a.b'' (JObj [(''a'', JObj [(''b'', JArr [JNum 1, JNum 2])])])
     = [JNum 1, JNum 2] \<and>
   unwrapDataField sampleLib (JStr ''a.b'') (JArr [JObj [(''a'', JObj [(''b'', JNum 1)])]])
     = Inr [JUndefined] \<and>
   spec_unwrapDataField sampleLib ''a.b'' (JArr [JObj [(''a'', JObj [(''b'', JNum 1)])]])
     = [JNum 1] \<and>
   unwrapDataField sampleLib (JStr ''a'') (JArr [JNull])
     = Inl (TypeError ''Cannot read properties of null'') \<and>
   spec_unwrapDataField sampleLib ''a'' (JArr [JNull]) = [JUndefined]"
  by (simp add: unwrapDataField_def spec_unwrapDataField_def spec_dottedGet_def toStr_JStr
      andThen_simps objectPrototype_def orUndefined_def)

text \<open>
  Claim C1, amended: when \<^verbatim>\<open>dataField\<close> is set it is one property name. If the parsed
  response is an object, the value of its property \<^verbatim>\<open>dataField\<close> becomes the working
  array if it is an array, and is wrapped in a one-element array otherwise; the value
  of the property is the own property of that name, or else the property of that name
  every object inherits, or else \<^verbatim>\<open>undefined\<close>. If the parsed response is an array with
  no \<^verbatim>\<open>null\<close> or \<^verbatim>\<open>undefined\<close> element, the working array has the same length and its
  element at each position is the property \<^verbatim>\<open>dataField\<close> of the element at that
  position, read in the same way: a one-to-one map, nothing filtered.
\<close>

theorem dataField_is_a_property_name:
  "dataField \<noteq> [] \<longrightarrow>
     unwrapDataField L (JStr dataField) (JObj kvs)
       = Inr (case map_of kvs dataField of
                Some d \<Rightarrow> (case d of JArr ys \<Rightarrow> ys | _ \<Rightarrow> [d])
              | None \<Rightarrow> (case map_of objectPrototype dataField of
                           Some p \<Rightarrow> [p]
                         | None \<Rightarrow> [JUndefined])) \<and>
     ((\<forall>x\<in>set xs. x \<noteq> JNull \<and> x \<noteq> JUndefined) \<longrightarrow>
        (\<exists>ys. unwrapDataField L (JStr dataField) (JArr xs) = Inr ys \<and>
              length ys = length xs \<and>
              (\<forall>i<length xs. getProp L (xs ! i) dataField = Inr (ys ! i)) \<and>
              (\<forall>i<length xs. \<forall>ps. xs ! i = JObj ps \<longrightarrow>
                 ys ! i = (case map_of ps dataField of
                             Some d \<Rightarrow> d
                           | None \<Rightarrow> (case map_of objectPrototype dataField of
                                        Some p \<Rightarrow> p
                                      | None \<Rightarrow> JUndefined)))))"
proof (intro impI conjI)
  assume d: "dataField \<noteq> []"
  show "unwrapDataField L (JStr dataField) (JObj kvs)
       = Inr (case map_of kvs dataField of
                Some d \<Rightarrow> (case d of JArr ys \<Rightarrow> ys | _ \<Rightarrow> [d])
              | None \<Rightarrow> (case map_of objectPrototype dataField of
                           Some p \<Rightarrow> [p]
                         | None \<Rightarrow> [JUndefined]))"
  proof (cases "map_of kvs dataField")
    case (Some v)
    with d show ?thesis
      by (simp add: unwrapDataField_def toStr_JStr andThen_simps)
  next
    case None
    show ?thesis
    proof (cases "map_of objectPrototype dataField")
      case inh: None
      with None d show ?thesis
        by (simp add: unwrapDataField_def toStr_JStr andThen_simps orUndefined_def)
    next
      case inh: (Some p)
      from objectPrototype_values [OF inh] have "(case p of JArr ys \<Rightarrow> ys | _ \<Rightarrow> [p]) = [p]"
        by auto
      with None inh d show ?thesis
        by (simp add: unwrapDataField_def toStr_JStr andThen_simps orUndefined_def)
    qed
  qed
next
  assume d: "dataField \<noteq> []" and ok: "\<forall>x\<in>set xs. x \<noteq> JNull \<and> x \<noteq> JUndefined"
  from ok have "\<forall>x\<in>set xs. \<exists>y. getProp L x dataField = Inr y"
    by (simp add: getProp_defined)
  from mapE_Inr [OF this] obtain ys where
    ys: "mapE (\<lambda>x. getProp L x dataField) xs = Inr ys" "length ys = length xs"
      "\<forall>i<length xs. getProp L (xs ! i) dataField = Inr (ys ! i)"
    by blast
  have "\<forall>i<length xs. \<forall>ps. xs ! i = JObj ps \<longrightarrow>
          ys ! i = (case map_of ps dataField of
                      Some d \<Rightarrow> d
                    | None \<Rightarrow> (case map_of objectPrototype dataField of
                                 Some p \<Rightarrow> p
                               | None \<Rightarrow> JUndefined))"
  proof (intro allI impI)
    fix i ps
    assume "i < length xs" and "xs ! i = JObj ps"
    with ys(3) have "getProp L (JObj ps) dataField = Inr (ys ! i)" by auto
    then show "ys ! i = (case map_of ps dataField of
                      Some d \<Rightarrow> d
                    | None \<Rightarrow> (case map_of objectPrototype dataField of
                                 Some p \<Rightarrow> p
                               | None \<Rightarrow> JUndefined))"
      by (auto simp: orUndefined_def split: option.splits)
  qed
  with ys d
  show "\<exists>ys. unwrapDataField L (JStr dataField) (JArr xs) = Inr ys \<and>
              length ys = length xs \<and>
              (\<forall>i<length xs. getProp L (xs ! i) dataField = Inr (ys ! i)) \<and>
              (\<forall>i<length xs. \<forall>ps. xs ! i = JObj ps \<longrightarrow>
                 ys ! i = (case map_of ps dataField of
                             Some d \<Rightarrow> d
                           | None \<Rightarrow> (case map_of objectPrototype dataField of
                                        Some p \<Rightarrow> p
                                      | None \<Rightarrow> JUndefined)))"
    by (simp add: unwrapDataField_def toStr_JStr)
qed

theorem dataField_witness:
  "unwrapDataField sampleLib (JStr ''result'')
       (JObj [(''result'', JArr [JObj [(''a'', JNum 1)], JObj [(''a'', JNum 2)]])])
     = Inr [JObj [(''a'', JNum 1)], JObj [(''a'', JNum 2)]] \<and>
   unwrapDataField sampleLib (JStr ''__proto__'') (JObj [(''a'', JNum 1)])
     = Inr [JObjectPrototype] \<and>
   unwrapDataField sampleLib (JStr ''total'') (JObj [(''a'', JNum 1)]) = Inr [JUndefined] \<and>
   (\<exists>ys. unwrapDataField sampleLib (JStr ''result'')
            (JArr [JObj [(''result'', JNum 1)], JObj [(''name'', JStr ''n'')]]) = Inr ys \<and>
         length ys = 2 \<and> ys ! 0 = JNum 1 \<and> ys ! 1 = JUndefined)"
proof -
  have a: "unwrapDataField sampleLib (JStr ''result'')
       (JObj [(''result'', JArr [JObj [(''a'', JNum 1)], JObj [(''a'', JNum 2)]])])
     = Inr [JObj [(''a'', JNum 1)], JObj [(''a'', JNum 2)]]"
    using dataField_is_a_property_name [of "''result''" sampleLib
      "[(''result'', JArr [JObj [(''a'', JNum 1)], JObj [(''a'', JNum 2)]])]" "[]"]
    by simp
  have b: "unwrapDataField sampleLib (JStr ''__proto__'') (JObj [(''a'', JNum 1)])
     = Inr [JObjectPrototype]"
    using dataField_is_a_property_name [of "''__proto__''" sampleLib "[(''a'', JNum 1)]" "[]"]
    by (simp add: objectPrototype_def)
  have c: "unwrapDataField sampleLib (JStr ''total'') (JObj [(''a'', JNum 1)]) = Inr [JUndefined]"
    using dataField_is_a_property_name [of "''total''" sampleLib "[(''a'', JNum 1)]" "[]"]
    by (simp add: objectPrototype_def)
  have "\<exists>ys. unwrapDataField sampleLib (JStr ''result'')
            (JArr [JObj [(''result'', JNum 1)], JObj [(''name'', JStr ''n'')]]) = Inr ys \<and>
         length ys = 2 \<and> ys ! 0 = JNum 1 \<and> ys ! 1 = JUndefined"
    using dataField_is_a_property_name [of "''result''" sampleLib "[]"
      "[JObj [(''result'', JNum 1)], JObj [(''name'', JStr ''n'')]]"]
    by (auto simp: objectPrototype_def nth_Cons split: nat.splits)
  with a b c show ?thesis by blast
qed

section \<open>The dispatcher without a strategy\<close>

text \<open>
  Claim C3: for \<^verbatim>\<open>auth = 'none'\<close>, and for \<^verbatim>\<open>auth = 'genericCredentialType'\<close> with a
  \<^verbatim>\<open>genericAuthType\<close> that is none of the seven kinds, the function returned calls
  \<^verbatim>\<open>ctx.helpers.httpRequest\<close> with the request it was given, unchanged (so
  \<^verbatim>\<open>requestOptions.auth\<close> is not set), and does not fail.
\<close>

theorem plain_transport_when_no_strategy:
  "applyBuilt (configureHttpRequestFunction L c AuthNone i) req = Inr (HttpRequest req) \<and>
   (\<forall>k. getNodeParameter c ''genericAuthType'' i None = Inr k \<longrightarrow>
        k \<notin> JStr ` set genericCredentialKinds \<longrightarrow>
        applyBuilt (configureHttpRequestFunction L c AuthGenericCredentialType i) req
          = Inr (HttpRequest req))"
  by (simp add: configureHttpRequestFunction_def applyBuilt_def andThen_simps plainRequest_def
      genericCredentialKinds_def)

theorem plain_transport_witness:
  "applyBuilt (configureHttpRequestFunction sampleLib (sampleCtx [] []) AuthNone 0) sampleRequest
     = Inr (HttpRequest sampleRequest) \<and>
   getNodeParameter (sampleCtx [(''genericAuthType'', JStr ''httpBearerAuth'')] [])
     ''genericAuthType'' 0 None = Inr (JStr ''httpBearerAuth'') \<and>
   JStr ''httpBearerAuth'' \<notin> JStr ` set genericCredentialKinds \<and>
   applyBuilt (configureHttpRequestFunction sampleLib
       (sampleCtx [(''genericAuthType'', JStr ''httpBearerAuth'')] [])
       AuthGenericCredentialType 0) sampleRequest
     = Inr (HttpRequest sampleRequest) \<and>
   auth sampleRequest = None"
  using plain_transport_when_no_strategy [of sampleLib "sampleCtx [] []" 0 sampleRequest]
    plain_transport_when_no_strategy [of sampleLib
      "sampleCtx [(''genericAuthType'', JStr ''httpBearerAuth'')] []" 0 sampleRequest]
  by (simp add: sampleCtx_def genericCredentialKinds_def sampleRequest_def)

section \<open>Header authentication\<close>

text \<open>
  Claim C4 says that header authentication sets \<^verbatim>\<open>headers[name] = value\<close> for every
  credential and leaves the rest of the request as it was. The theorem states what
  \<^verbatim>\<open>requestOptions.headers![name] = value\<close> does for every credential, with the key
  \<open>k\<close> that \<^verbatim>\<open>name\<close> is read as (a string is its own key), on a request whose \<^verbatim>\<open>headers\<close>
  is an object. For every \<open>k\<close> but \<^verbatim>\<open>__proto__\<close>, and for \<^verbatim>\<open>__proto__\<close> when the headers
  have that own property already, the request dispatched has \<^verbatim>\<open>headers[k] = value\<close>,
  every other header as it was, and \<^verbatim>\<open>qs\<close>, \<^verbatim>\<open>body\<close>, \<^verbatim>\<open>auth\<close> and the rest unchanged: the
  claim holds. For \<^verbatim>\<open>k = '__proto__'\<close> otherwise the assignment runs the inherited setter
  and the request is dispatched with the headers it had: no header is set, and the
  claim fails.
\<close>

theorem header_auth_assignment:
  assumes "getNodeParameter c ''genericAuthType'' i None = Inr (JStr ''httpHeaderAuth'')"
    and "getCredentials c ''httpHeaderAuth'' i = Inr creds"
    and "headers req = Some h"
  shows "(toStr L (field creds ''name'') = ''__proto__'' \<and> map_of h ''__proto__'' = None \<longrightarrow>
            applyBuilt (configureHttpRequestFunction L c AuthGenericCredentialType i) req
              = Inr (HttpRequest req)) \<and>
         (\<not> (toStr L (field creds ''name'') = ''__proto__'' \<and> map_of h ''__proto__'' = None) \<longrightarrow>
            (\<exists>r h'. applyBuilt (configureHttpRequestFunction L c AuthGenericCredentialType i) req
                       = Inr (HttpRequest r) \<and>
                     headers r = Some h' \<and>
                     map_of h' (toStr L (field creds ''name'')) = Some (field creds ''value'') \<and>
                     (\<forall>k. k \<noteq> toStr L (field creds ''name'') \<longrightarrow> map_of h' k = map_of h k) \<and>
                     qs r = qs req \<and> body r = body req \<and> auth r = auth req \<and>
                     url r = url req \<and> others r = others req))"
proof -
  have run: "applyBuilt (configureHttpRequestFunction L c AuthGenericCredentialType i) req
      = Inr (HttpRequest (req\<lparr>headers := Some
          (setProp h (toStr L (field creds ''name'')) (field creds ''value''))\<rparr>))"
    using assms
    by (simp add: configureHttpRequestFunction_def applyBuilt_def andThen_simps
        headerAuthRequest_def)
  have same: "req\<lparr>headers := Some h\<rparr> = req"
    using assms(3) by (cases req) simp
  show ?thesis
  proof (intro conjI impI)
    assume "toStr L (field creds ''name'') = ''__proto__'' \<and> map_of h ''__proto__'' = None"
    with run same
    show "applyBuilt (configureHttpRequestFunction L c AuthGenericCredentialType i) req
        = Inr (HttpRequest req)"
      by (simp add: setProp_def)
  next
    assume "\<not> (toStr L (field creds ''name'') = ''__proto__'' \<and> map_of h ''__proto__'' = None)"
    then have "setProp h (toStr L (field creds ''name'')) (field creds ''value'')
        = AList.update (toStr L (field creds ''name'')) (field creds ''value'') h"
      by (auto simp: setProp_def)
    with run
    show "\<exists>r h'. applyBuilt (configureHttpRequestFunction L c AuthGenericCredentialType i) req
                       = Inr (HttpRequest r) \<and>
                     headers r = Some h' \<and>
                     map_of h' (toStr L (field creds ''name'')) = Some (field creds ''value'') \<and>
                     (\<forall>k. k \<noteq> toStr L (field creds ''name'') \<longrightarrow> map_of h' k = map_of h k) \<and>
                     qs r = qs req \<and> body r = body req \<and> auth r = auth req \<and>
                     url r = url req \<and> others r = others req"
      by (simp add: update_conv')
  qed
qed

theorem header_auth_witness:
  "applyBuilt (configureHttpRequestFunction sampleLib
       (sampleCtx [(''genericAuthType'', JStr ''httpHeaderAuth'')]
          [(''name'', JStr ''__proto__''), (''value'', JStr ''v1'')])
       AuthGenericCredentialType 0) sampleRequest
     = Inr (HttpRequest sampleRequest) \<and>
   headers sampleRequest = Some [(''Accept'', JStr ''application/json'')] \<and>
   (\<exists>r h'. applyBuilt (configureHttpRequestFunction sampleLib headerAuthCtx
                AuthGenericCredentialType 0) sampleRequest = Inr (HttpRequest r) \<and>
      headers r = Some h' \<and> map_of h' ''X-Key'' = Some (JStr ''v1'') \<and>
      map_of h' ''Accept'' = Some (JStr ''application/json'') \<and>
      qs r = qs sampleRequest \<and> body r = body sampleRequest \<and> auth r = None)"
proof -
  let ?protoCreds = "[(''name'', JStr ''__proto__''), (''value'', JStr ''v1'')]"
  let ?protoCtx = "sampleCtx [(''genericAuthType'', JStr ''httpHeaderAuth'')] ?protoCreds"
  let ?creds = "[(''name'', JStr ''X-Key''), (''value'', JStr ''v1'')]"
  have h: "headers sampleRequest = Some [(''Accept'', JStr ''application/json'')]"
    by (simp add: sampleRequest_def)
  have pp: "getNodeParameter ?protoCtx ''genericAuthType'' 0 None = Inr (JStr ''httpHeaderAuth'')"
    by (simp add: sampleCtx_def)
  have pc: "getCredentials ?protoCtx ''httpHeaderAuth'' 0 = Inr ?protoCreds"
    by (simp add: sampleCtx_def)
  have failing: "applyBuilt (configureHttpRequestFunction sampleLib ?protoCtx
       AuthGenericCredentialType 0) sampleRequest = Inr (HttpRequest sampleRequest)"
    using header_auth_assignment [OF pp pc h, of sampleLib]
    by (simp add: field_def toStr_JStr)
  have p: "getNodeParameter headerAuthCtx ''genericAuthType'' 0 None = Inr (JStr ''httpHeaderAuth'')"
    by (simp add: headerAuthCtx_def sampleCtx_def)
  have c: "getCredentials headerAuthCtx ''httpHeaderAuth'' 0 = Inr ?creds"
    by (simp add: headerAuthCtx_def sampleCtx_def)
  have n: "toStr sampleLib (field ?creds ''name'') = ''X-Key''"
    by (simp add: field_def toStr_JStr)
  have v: "field ?creds ''value'' = JStr ''v1''"
    by (simp add: field_def)
  from header_auth_assignment [OF p c h, of sampleLib] n v
  obtain r h' where
    "applyBuilt (configureHttpRequestFunction sampleLib headerAuthCtx
        AuthGenericCredentialType 0) sampleRequest = Inr (HttpRequest r)"
    "headers r = Some h'" "map_of h' ''X-Key'' = Some (JStr ''v1'')"
    "\<forall>k. k \<noteq> ''X-Key'' \<longrightarrow> map_of h' k = map_of [(''Accept'', JStr ''application/json'')] k"
    "qs r = qs sampleRequest" "body r = body sampleRequest" "auth r = auth sampleRequest"
    by auto
  moreover from this(4) have "map_of h' ''Accept'' = Some (JStr ''application/json'')"
    by simp
  moreover have "auth sampleRequest = None" by (simp add: sampleRequest_def)
  ultimately show ?thesis using failing h by auto
qed

section \<open>Predefined credential types\<close>

text \<open>
  Claim C7 says that for \<^verbatim>\<open>auth = 'predefinedCredentialType'\<close> the function returned
  passes \<^verbatim>\<open>{ oauth2: entry }\<close> exactly when the identifier has an entry in the table,
  and no override otherwise. The theorem states what the function passes for every
  identifier \<open>t\<close>: it calls \<^verbatim>\<open>requestWithAuthentication\<close> with \<open>t\<close>, the request and the
  item index, and its third argument is \<^verbatim>\<open>{ oauth2: entry }\<close> when the table has the
  entry for \<open>t\<close>; when it has none, the argument is \<^verbatim>\<open>undefined\<close> unless \<open>t\<close> is a name the
  object literal inherits, and then it is \<^verbatim>\<open>{ oauth2: value }\<close> with the inherited value.
  So the claim holds for every identifier but the twelve inherited names, and fails
  at those: at \<^verbatim>\<open>constructor\<close> the table has no entry and the code passes
  \<^verbatim>\<open>{ oauth2: Object }\<close>.
\<close>

theorem predefined_passes_lookup_result:
  assumes "getNodeParameter c ''nodeCredentialType'' i None = Inr (JStr t)"
  shows "applyBuilt (configureHttpRequestFunction L c AuthPredefinedCredentialType i) req
     = Inr (RequestWithAuthentication (JStr t) req
         (case map_of oAuth2Options t of
            Some e \<Rightarrow> Some \<lparr>oauth2 = TableEntry e\<rparr>
          | None \<Rightarrow> (case map_of objectPrototype t of
                       Some p \<Rightarrow> Some \<lparr>oauth2 = InheritedValue p\<rparr>
                     | None \<Rightarrow> None)) i)"
  using assms
  by (simp add: configureHttpRequestFunction_def applyBuilt_def andThen_simps
      predefinedRequest_def toStr_JStr getOAuth2AdditionalParameters_def split: option.splits)

theorem predefined_witness:
  "map_of oAuth2Options ''constructor'' = None \<and>
   applyBuilt (configureHttpRequestFunction sampleLib
       (sampleCtx [(''nodeCredentialType'', JStr ''constructor'')] [])
       AuthPredefinedCredentialType 2) sampleRequest
     = Inr (RequestWithAuthentication (JStr ''constructor'') sampleRequest
         (Some \<lparr>oauth2 = InheritedValue (JFunction ''Object'')\<rparr>) 2) \<and>
   applyBuilt (configureHttpRequestFunction sampleLib
       (sampleCtx [(''nodeCredentialType'', JStr ''slackOAuth2Api'')] [])
       AuthPredefinedCredentialType 2) sampleRequest
     = Inr (RequestWithAuthentication (JStr ''slackOAuth2Api'') sampleRequest
         (Some \<lparr>oauth2 = TableEntry (noOptions\<lparr>tokenType := Some ''Bearer'',
            property := Some ''authed_user.access_token''\<rparr>)\<rparr>) 2) \<and>
   applyBuilt (configureHttpRequestFunction sampleLib
       (sampleCtx [(''nodeCredentialType'', JStr ''githubApi'')] [])
       AuthPredefinedCredentialType 2) sampleRequest
     = Inr (RequestWithAuthentication (JStr ''githubApi'') sampleRequest None 2)"
  using predefined_passes_lookup_result [of
      "sampleCtx [(''nodeCredentialType'', JStr ''constructor'')] []" 2 "''constructor''"
      sampleLib sampleRequest]
    predefined_passes_lookup_result [of
      "sampleCtx [(''nodeCredentialType'', JStr ''slackOAuth2Api'')] []" 2 "''slackOAuth2Api''"
      sampleLib sampleRequest]
    predefined_passes_lookup_result [of
      "sampleCtx [(''nodeCredentialType'', JStr ''githubApi'')] []" 2 "''githubApi''"
      sampleLib sampleRequest]
  by (simp add: sampleCtx_def oAuth2Options_def objectPrototype_def)

section \<open>OAuth2\<close>

text \<open>
  Claim C9: for \<^verbatim>\<open>genericAuthType = 'oAuth2Api'\<close> the function returned calls
  \<^verbatim>\<open>requestOAuth2\<close> with the credential type \<^verbatim>\<open>'oAuth1Api'\<close> (not \<^verbatim>\<open>'oAuth2Api'\<close>), the
  request, and the option \<^verbatim>\<open>{ tokenType: 'Bearer' }\<close>.
\<close>

theorem oAuth2_uses_oAuth1_identifier:
  assumes "getNodeParameter c ''genericAuthType'' i None = Inr (JStr ''oAuth2Api'')"
  shows "applyBuilt (configureHttpRequestFunction L c AuthGenericCredentialType i) req
     = Inr (RequestOAuth2 ''oAuth1Api'' req (noOptions\<lparr>tokenType := Some ''Bearer''\<rparr>))"
  using assms
  by (simp add: configureHttpRequestFunction_def applyBuilt_def andThen_simps oAuth2Request_def)

theorem oAuth2_witness:
  "applyBuilt (configureHttpRequestFunction sampleLib
       (sampleCtx [(''genericAuthType'', JStr ''oAuth2Api'')] [])
       AuthGenericCredentialType 0) sampleRequest
     = Inr (RequestOAuth2 ''oAuth1Api'' sampleRequest (noOptions\<lparr>tokenType := Some ''Bearer''\<rparr>))"
  using oAuth2_uses_oAuth1_identifier [of
      "sampleCtx [(''genericAuthType'', JStr ''oAuth2Api'')] []" 0 sampleLib sampleRequest]
  by (simp add: sampleCtx_def)

section \<open>Custom authentication\<close>

text \<open>
  Claim C2 says that every malformed credential string makes the function raise a
  parse error that carries the item index. The source passes \<^verbatim>\<open>jsonParse\<close> the string
  and the message and nothing else, so what is raised cannot depend on the item: with
  the credential \<^verbatim>\<open>{bad\<close> the function built for item 3 and the function built for item 4
  raise the same error, which therefore does not carry the index 3 in the one and the
  index 4 in the other. And the empty string, which \<^verbatim>\<open>JSON.parse\<close> rejects, raises
  nothing: \<^verbatim>\<open>'{}'\<close> is parsed in its place and the request is dispatched.
\<close>

theorem custom_auth_item_index_counterexample:
  "JSON_parse sampleLib ''{bad'' = None \<and>
   applyBuilt (configureHttpRequestFunction sampleLib (customAuthCtx [(''json'', JStr ''{bad'')])
       AuthGenericCredentialType 3) sampleRequest
     = applyBuilt (configureHttpRequestFunction sampleLib
         (customAuthCtx [(''json'', JStr ''{bad'')]) AuthGenericCredentialType 4) sampleRequest \<and>
   \<not> (spec_parseErrorAt
         (applyBuilt (configureHttpRequestFunction sampleLib
            (customAuthCtx [(''json'', JStr ''{bad'')]) AuthGenericCredentialType 3) sampleRequest)
         ''Invalid Custom Auth JSON'' 3 \<and>
       spec_parseErrorAt
         (applyBuilt (configureHttpRequestFunction sampleLib
            (customAuthCtx [(''json'', JStr ''{bad'')]) AuthGenericCredentialType 4) sampleRequest)
         ''Invalid Custom Auth JSON'' 4) \<and>
   JSON_parse sampleLib [] = None \<and>
   applyBuilt (configureHttpRequestFunction sampleLib (customAuthCtx [(''json'', JStr [])])
       AuthGenericCredentialType 3) sampleRequest = Inr (HttpRequest sampleRequest)"
proof -
  let ?c = "customAuthCtx [(''json'', JStr ''{bad'')]"
  let ?run = "\<lambda>i. applyBuilt (configureHttpRequestFunction sampleLib ?c
                     AuthGenericCredentialType i) sampleRequest"
  have bad: "JSON_parse sampleLib ''{bad'' = None"
    by (simp add: sampleLib_def)
  have g: "getNodeParameter (customAuthCtx creds) ''genericAuthType'' i None
             = Inr (JStr ''httpCustomAuth'')" for creds i
    by (simp add: customAuthCtx_def sampleCtx_def)
  have k: "getCredentials (customAuthCtx creds) ''httpCustomAuth'' i = Inr creds" for creds i
    by (simp add: customAuthCtx_def sampleCtx_def)
  have f: "field [(''json'', JStr ''{bad'')] ''json'' = JStr ''{bad''"
    by (simp add: field_def)
  have run: "?run i = Inl (jsonParse_error sampleLib ''{bad'' (Some ''Invalid Custom Auth JSON''))"
    for i
    using custom_auth_dispatch [OF g k] customAuthRequest_malformed [OF f _ bad] by simp
  then have same: "?run 3 = ?run 4" by simp
  have "\<not> (spec_parseErrorAt (?run 3) ''Invalid Custom Auth JSON'' 3 \<and>
           spec_parseErrorAt (?run 4) ''Invalid Custom Auth JSON'' 4)"
  proof
    assume "spec_parseErrorAt (?run 3) ''Invalid Custom Auth JSON'' 3 \<and>
            spec_parseErrorAt (?run 4) ''Invalid Custom Auth JSON'' 4"
    with same have "spec_parseErrorAt (?run 3) ''Invalid Custom Auth JSON'' 3"
      and "spec_parseErrorAt (?run 3) ''Invalid Custom Auth JSON'' 4" by simp_all
    from spec_parseErrorAt_index [OF this] show False by simp
  qed
  moreover have "JSON_parse sampleLib [] = None"
    by (simp add: sampleLib_def)
  moreover have "applyBuilt (configureHttpRequestFunction sampleLib
       (customAuthCtx [(''json'', JStr [])]) AuthGenericCredentialType 3) sampleRequest
     = Inr (HttpRequest sampleRequest)"
    using custom_auth_dispatch [OF g [of "[(''json'', JStr [])]" 3] k [of "[(''json'', JStr [])]" 3]]
    by (simp add: customAuthRequest_def field_def jsonParse_def toStr_JStr andThen_simps
        sampleLib_def custom_auth_names_not_inherited orUndefined_def)
  ultimately show ?thesis using bad same by blast
qed

text \<open>
  Claim C2, amended: for \<^verbatim>\<open>httpCustomAuth\<close>, every credential string that is not empty
  and that \<^verbatim>\<open>JSON.parse\<close> rejects makes the function returned raise the error that
  \<^verbatim>\<open>jsonParse\<close> raises for that string and the message \<^verbatim>\<open>Invalid Custom Auth JSON\<close>: by
  the spec's account of \<^verbatim>\<open>jsonParse\<close>, the parse error with that message. The error is
  the same for every item index, context and request with that credential string: it
  does not carry the item index.
\<close>

theorem custom_auth_malformed_json:
  assumes "getNodeParameter c ''genericAuthType'' i None = Inr (JStr ''httpCustomAuth'')"
    and "getCredentials c ''httpCustomAuth'' i = Inr creds"
    and "field creds ''json'' = JStr s"
    and "s \<noteq> []"
    and "JSON_parse L s = None"
  shows "applyBuilt (configureHttpRequestFunction L c AuthGenericCredentialType i) req
       = Inl (jsonParse_error L s (Some ''Invalid Custom Auth JSON'')) \<and>
     (\<forall>c' j creds' req'.
        getNodeParameter c' ''genericAuthType'' j None = Inr (JStr ''httpCustomAuth'') \<longrightarrow>
        getCredentials c' ''httpCustomAuth'' j = Inr creds' \<longrightarrow>
        field creds' ''json'' = JStr s \<longrightarrow>
        applyBuilt (configureHttpRequestFunction L c' AuthGenericCredentialType j) req'
          = applyBuilt (configureHttpRequestFunction L c AuthGenericCredentialType i) req) \<and>
     (jsonParse_error L s (Some ''Invalid Custom Auth JSON'')
        = spec_jsonParse_error s (Some ''Invalid Custom Auth JSON'') \<longrightarrow>
      applyBuilt (configureHttpRequestFunction L c AuthGenericCredentialType i) req
        = Inl (ParseError ''Invalid Custom Auth JSON''))"
proof -
  have here: "applyBuilt (configureHttpRequestFunction L c AuthGenericCredentialType i) req
      = Inl (jsonParse_error L s (Some ''Invalid Custom Auth JSON''))"
    using custom_auth_dispatch [OF assms(1,2)] customAuthRequest_malformed [OF assms(3,4,5)]
    by simp
  have "applyBuilt (configureHttpRequestFunction L c' AuthGenericCredentialType j) req'
      = Inl (jsonParse_error L s (Some ''Invalid Custom Auth JSON''))"
    if "getNodeParameter c' ''genericAuthType'' j None = Inr (JStr ''httpCustomAuth'')"
      and "getCredentials c' ''httpCustomAuth'' j = Inr creds'"
      and "field creds' ''json'' = JStr s" for c' j creds' req'
    using custom_auth_dispatch [OF that(1,2)] customAuthRequest_malformed [OF that(3) assms(4,5)]
    by simp
  with here show ?thesis by (simp add: spec_jsonParse_error_def)
qed

theorem custom_auth_malformed_json_witness:
  "JSON_parse sampleLib ''{bad'' = None \<and>
   applyBuilt (configureHttpRequestFunction sampleLib (customAuthCtx [(''json'', JStr ''{bad'')])
       AuthGenericCredentialType 3) sampleRequest = Inl (ParseError ''Invalid Custom Auth JSON'') \<and>
   applyBuilt (configureHttpRequestFunction sampleLib (customAuthCtx [(''json'', JStr ''{bad'')])
       AuthGenericCredentialType 4) sampleRequest = Inl (ParseError ''Invalid Custom Auth JSON'')"
proof -
  have bad: "JSON_parse sampleLib ''{bad'' = None"
    by (simp add: sampleLib_def)
  have g: "getNodeParameter (customAuthCtx creds) ''genericAuthType'' i None
             = Inr (JStr ''httpCustomAuth'')" for creds i
    by (simp add: customAuthCtx_def sampleCtx_def)
  have k: "getCredentials (customAuthCtx creds) ''httpCustomAuth'' i = Inr creds" for creds i
    by (simp add: customAuthCtx_def sampleCtx_def)
  have f: "field [(''json'', JStr ''{bad'')] ''json'' = JStr ''{bad''"
    by (simp add: field_def)
  have e: "jsonParse_error sampleLib ''{bad'' (Some ''Invalid Custom Auth JSON'')
      = spec_jsonParse_error ''{bad'' (Some ''Invalid Custom Auth JSON'')"
    by (simp add: sampleLib_def)
  from custom_auth_malformed_json [OF g k f _ bad, of 3 sampleRequest]
    custom_auth_malformed_json [OF g k f _ bad, of 4 sampleRequest] e bad
  show ?thesis by (simp add: spec_jsonParse_error_def)
qed

text \<open>
  Claim C10: for \<^verbatim>\<open>httpCustomAuth\<close>, when the credential's \<^verbatim>\<open>json\<close> is absent, \<^verbatim>\<open>null\<close> or
  the empty string, the function returned does what it does for the credential
  \<^verbatim>\<open>json = '{}'\<close>; and, \<^verbatim>\<open>JSON.parse('{}')\<close> being the empty object, it does not fail and
  dispatches the request it was given with \<^verbatim>\<open>headers\<close>, \<^verbatim>\<open>qs\<close> and \<^verbatim>\<open>body\<close> unchanged.
\<close>

theorem custom_auth_empty_json:
  assumes "getNodeParameter c ''genericAuthType'' i None = Inr (JStr ''httpCustomAuth'')"
    and "getCredentials c ''httpCustomAuth'' i = Inr creds"
    and "field creds ''json'' \<in> {JUndefined, JNull, JStr []}"
  shows "applyBuilt (configureHttpRequestFunction L c AuthGenericCredentialType i) req
       = customAuthRequest L [(''json'', JStr ''{}'')] req \<and>
     (JSON_parse L ''{}'' = Some (JObj []) \<longrightarrow>
        applyBuilt (configureHttpRequestFunction L c AuthGenericCredentialType i) req
          = Inr (HttpRequest req))"
proof -
  from assms(3) have "\<not> truthy (field creds ''json'')" by auto
  with assms(1,2) show ?thesis
    by (simp add: configureHttpRequestFunction_def applyBuilt_def andThen_simps
        customAuthRequest_def jsonParse_def toStr_JStr field_def
        custom_auth_names_not_inherited orUndefined_def)
qed

theorem custom_auth_empty_json_witness:
  "applyBuilt (configureHttpRequestFunction sampleLib (customAuthCtx [])
       AuthGenericCredentialType 0) sampleRequest = Inr (HttpRequest sampleRequest) \<and>
   applyBuilt (configureHttpRequestFunction sampleLib (customAuthCtx [(''json'', JNull)])
       AuthGenericCredentialType 0) sampleRequest = Inr (HttpRequest sampleRequest) \<and>
   applyBuilt (configureHttpRequestFunction sampleLib (customAuthCtx [(''json'', JStr [])])
       AuthGenericCredentialType 0) sampleRequest = Inr (HttpRequest sampleRequest)"
proof -
  have g: "getNodeParameter (customAuthCtx creds) ''genericAuthType'' 0 None
             = Inr (JStr ''httpCustomAuth'')" for creds
    by (simp add: customAuthCtx_def sampleCtx_def)
  have k: "getCredentials (customAuthCtx creds) ''httpCustomAuth'' 0 = Inr creds" for creds
    by (simp add: customAuthCtx_def sampleCtx_def)
  have p: "JSON_parse sampleLib ''{}'' = Some (JObj [])"
    by (simp add: sampleLib_def)
  have absent: "field [] ''json'' \<in> {JUndefined, JNull, JStr []}"
    by (simp add: field_def)
  have null: "field [(''json'', JNull)] ''json'' \<in> {JUndefined, JNull, JStr []}"
    by (simp add: field_def)
  have empty: "field [(''json'', JStr [])] ''json'' \<in> {JUndefined, JNull, JStr []}"
    by (simp add: field_def)
  from custom_auth_empty_json [OF g k absent, of sampleLib sampleRequest]
    custom_auth_empty_json [OF g k null, of sampleLib sampleRequest]
    custom_auth_empty_json [OF g k empty, of sampleLib sampleRequest] p
  show ?thesis by blast
qed

section \<open>Responses that are not strings\<close>

text \<open>
  Claim C5 names the error \<^verbatim>\<open>TypeError("response must be a string")\<close>. The source throws
  a \<^verbatim>\<open>NodeOperationError\<close> whose message names the type received: on the number 5 the
  text optimizer fails with \<^verbatim>\<open>The response type must be a string. Received: number\<close>, and
  neither optimizer fails with the error the claim names.
\<close>

theorem non_string_response_counterexample:
  "applyBuilt (configureResponseOptimizer sampleLib
       (optimizerCtx [(''responseType'', JStr ''text'')]) 0) (JNum 5)
     = Inl (NodeOperationError ''HTTP Request Tool''
         ''The response type must be a string. Received: number'' 0) \<and>
   applyBuilt (configureResponseOptimizer sampleLib
       (optimizerCtx [(''responseType'', JStr ''text'')]) 0) (JNum 5)
     \<noteq> Inl spec_stringRequired \<and>
   applyBuilt (configureResponseOptimizer sampleLib
       (optimizerCtx [(''responseType'', JStr ''html'')]) 0) (JNum 5)
     \<noteq> Inl spec_stringRequired"
  by (simp add: configureResponseOptimizer_def andThen_simps optimizerCtx_def sampleCtx_def
      applyBuilt_def textOptimizer_def htmlOptimizer_def stringRequired_def
      spec_stringRequired_def)

text \<open>
  Claim C5, amended: for every response that is not a string, the function built for
  \<^verbatim>\<open>responseType = 'html'\<close> and the function built for \<^verbatim>\<open>responseType = 'text'\<close> both fail
  with the \<^verbatim>\<open>NodeOperationError\<close> of the node whose message is
  \<^verbatim>\<open>The response type must be a string. Received: \<close> followed by \<^verbatim>\<open>typeof response\<close>, and
  which carries the item index.
\<close>

theorem non_string_response_rejected:
  assumes "getNodeParameter c ''optimizeResponse'' i (Some (JBool False)) = Inr opt"
    and "truthy opt"
    and "getNodeParameter c ''responseType'' i None = Inr responseType"
    and "responseType = JStr ''html'' \<or> responseType = JStr ''text''"
    and "configureResponseOptimizer L c i = Inr f"
    and "typeof response \<noteq> ''string''"
  shows "f response =
     Inl (NodeOperationError (getNode c)
            (''The response type must be a string. Received: '' @ typeof response) i)"
proof -
  from assms(4) show ?thesis
  proof
    assume "responseType = JStr ''html''"
    with configure_html_built [of c i opt L f] assms(1,2,3,5)
    obtain s oc om where "f = htmlOptimizer L c i s oc om" by blast
    with assms(6) show ?thesis by (simp add: htmlOptimizer_def stringRequired_def)
  next
    assume "responseType = JStr ''text''"
    with configure_text_built [of c i opt L f] assms(1,2,3,5)
    obtain m where "f = textOptimizer L c i m" by blast
    with assms(6) show ?thesis by (simp add: textOptimizer_def stringRequired_def)
  qed
qed

theorem non_string_response_witness:
  "configureResponseOptimizer sampleLib
       (optimizerCtx [(''responseType'', JStr ''html''), (''cssSelector'', JStr ''li'')]) 4
     = Inr (htmlOptimizer sampleLib
         (optimizerCtx [(''responseType'', JStr ''html''), (''cssSelector'', JStr ''li'')]) 4
         (JStr ''li'') (JBool False) []) \<and>
   typeof (JObj [(''a'', JNum 1)]) \<noteq> ''string'' \<and>
   htmlOptimizer sampleLib
       (optimizerCtx [(''responseType'', JStr ''html''), (''cssSelector'', JStr ''li'')]) 4
       (JStr ''li'') (JBool False) [] (JObj [(''a'', JNum 1)])
     = Inl (NodeOperationError ''HTTP Request Tool''
         ''The response type must be a string. Received: object'' 4)"
proof -
  let ?c = "optimizerCtx [(''responseType'', JStr ''html''), (''cssSelector'', JStr ''li'')]"
  have b: "configureResponseOptimizer sampleLib ?c 4
     = Inr (htmlOptimizer sampleLib ?c 4 (JStr ''li'') (JBool False) [])"
    by (simp add: configureResponseOptimizer_def andThen_simps optimizerCtx_def sampleCtx_def)
  have o: "getNodeParameter ?c ''optimizeResponse'' 4 (Some (JBool False)) = Inr (JBool True)"
    by (simp add: optimizerCtx_def sampleCtx_def)
  have r: "getNodeParameter ?c ''responseType'' 4 None = Inr (JStr ''html'')"
    by (simp add: optimizerCtx_def sampleCtx_def)
  have t: "typeof (JObj [(''a'', JNum 1)]) \<noteq> ''string''" by simp
  have n: "getNode ?c = ''HTTP Request Tool''"
    by (simp add: optimizerCtx_def sampleCtx_def)
  from non_string_response_rejected [OF o _ r _ b t] n b t show ?thesis by simp
qed

section \<open>The text optimizer\<close>

text \<open>
  Claim C6: for every string \<open>s\<close> and every \<^verbatim>\<open>maxLength\<close> \<open>m\<close>, the text optimizer returns
  the first \<open>m\<close> characters of \<open>s\<close> when \<open>m > 0\<close> and \<open>s\<close> is longer than \<open>m\<close>, and \<open>s\<close>
  itself otherwise, with nothing appended; so \<^verbatim>\<open>maxLength = 0\<close> never truncates.
\<close>

theorem text_optimizer_truncates:
  assumes "getNodeParameter c ''optimizeResponse'' i (Some (JBool False)) = Inr opt"
    and "truthy opt"
    and "getNodeParameter c ''responseType'' i None = Inr (JStr ''text'')"
    and "getNodeParameter c ''maxLength'' i (Some (JNum 0)) = Inr (JNum m)"
  shows "applyBuilt (configureResponseOptimizer L c i) (JStr s)
     = Inr (if 0 < m \<and> m < int (length s) then take (nat m) s else s)"
  using configure_text [OF assms, of L]
  by (simp add: applyBuilt_def andThen_simps textOptimizer_def toStr_JStr toNum_def
      substring_def Let_def min_def max_def)

theorem text_optimizer_witness:
  "applyBuilt (configureResponseOptimizer sampleLib
       (optimizerCtx [(''responseType'', JStr ''text''), (''maxLength'', JNum 5)]) 0)
     (JStr ''abcdefgh'') = Inr ''abcde'' \<and>
   applyBuilt (configureResponseOptimizer sampleLib
       (optimizerCtx [(''responseType'', JStr ''text''), (''maxLength'', JNum 0)]) 0)
     (JStr ''abcdefgh'') = Inr ''abcdefgh'' \<and>
   applyBuilt (configureResponseOptimizer sampleLib
       (optimizerCtx [(''responseType'', JStr ''text'')]) 0)
     (JStr ''abcdefgh'') = Inr ''abcdefgh''"
  using text_optimizer_truncates [of
      "optimizerCtx [(''responseType'', JStr ''text''), (''maxLength'', JNum 5)]" 0 "JBool True" 5
      sampleLib "''abcdefgh''"]
    text_optimizer_truncates [of
      "optimizerCtx [(''responseType'', JStr ''text''), (''maxLength'', JNum 0)]" 0 "JBool True" 0
      sampleLib "''abcdefgh''"]
    text_optimizer_truncates [of
      "optimizerCtx [(''responseType'', JStr ''text'')]" 0 "JBool True" 0
      sampleLib "''abcdefgh''"]
  by (simp add: optimizerCtx_def sampleCtx_def)

section \<open>The fallback serializer\<close>

text \<open>
  Claim C8: when optimization is disabled, the function built returns a string
  response as it is, so applying it to its own result gives the same string again.
\<close>

theorem fallback_serializer_idempotent_on_strings:
  assumes "getNodeParameter c ''optimizeResponse'' i (Some (JBool False)) = Inr opt"
    and "\<not> truthy opt"
  shows "applyBuilt (configureResponseOptimizer L c i) (JStr s) = Inr s \<and>
     andThen (applyBuilt (configureResponseOptimizer L c i) (JStr s))
       (\<lambda>once. applyBuilt (configureResponseOptimizer L c i) (JStr once))
     = applyBuilt (configureResponseOptimizer L c i) (JStr s)"
  using assms
  by (simp add: configureResponseOptimizer_def applyBuilt_def andThen_simps
      fallbackSerializer_def toStr_JStr)

theorem fallback_serializer_witness:
  "applyBuilt (configureResponseOptimizer sampleLib (sampleCtx [] []) 0) (JStr ''plain text'')
     = Inr ''plain text'' \<and>
   andThen (applyBuilt (configureResponseOptimizer sampleLib (sampleCtx [] []) 0)
              (JStr ''plain text''))
       (\<lambda>once. applyBuilt (configureResponseOptimizer sampleLib (sampleCtx [] []) 0) (JStr once))
     = Inr ''plain text''"
proof -
  have o: "getNodeParameter (sampleCtx [] []) ''optimizeResponse'' 0 (Some (JBool False))
             = Inr (JBool False)"
    by (simp add: sampleCtx_def)
  from fallback_serializer_idempotent_on_strings [OF o, of sampleLib "''plain text''"]
  show ?thesis by (simp add: andThen_simps)
qed

end
